theory Spec2Isabelle
  imports Main "HOL-Library.Sublist"
begin

section \<open>Strings\<close>

text \<open>
  A JavaScript string is a sequence of UTF-16 code units. The model keeps the code units
  0 to 255 (one HOL \<^typ>\<open>char\<close> each) and gives \<^verbatim>\<open>String.prototype.trim\<close>,
  \<^verbatim>\<open>toLowerCase\<close> and \<^verbatim>\<open>includes\<close> their meaning on that range.
\<close>

text \<open>The code units below 256 that \<^verbatim>\<open>trim\<close> strips: TAB, LF, VT, FF, CR, SPACE, NBSP.\<close>

definition whiteSpace :: "char list" where
  "whiteSpace = [CHR 0x09, CHR 0x0A, CHR 0x0B, CHR 0x0C, CHR 0x0D, CHR 0x20, CHR 0xA0]"

definition isWhiteSpace :: "char \<Rightarrow> bool" where
  "isWhiteSpace c = (c \<in> set whiteSpace)"

definition trim :: "string \<Rightarrow> string" where
  "trim s = rev (dropWhile isWhiteSpace (rev (dropWhile isWhiteSpace s)))"

text \<open>
  The code units below 256 that \<^verbatim>\<open>toLowerCase\<close> changes, each with its image at the same
  position of \<open>lowerCase\<close>: A to Z, and U+00C0 to U+00DE without the multiplication sign
  U+00D7.
\<close>

definition upperCase :: "char list" where
  "upperCase = ''ABCDEFGHIJKLMNOPQRSTUVWXYZ'' @
     [CHR 0xC0, CHR 0xC1, CHR 0xC2, CHR 0xC3, CHR 0xC4, CHR 0xC5, CHR 0xC6, CHR 0xC7,
      CHR 0xC8, CHR 0xC9, CHR 0xCA, CHR 0xCB, CHR 0xCC, CHR 0xCD, CHR 0xCE, CHR 0xCF,
      CHR 0xD0, CHR 0xD1, CHR 0xD2, CHR 0xD3, CHR 0xD4, CHR 0xD5, CHR 0xD6,
      CHR 0xD8, CHR 0xD9, CHR 0xDA, CHR 0xDB, CHR 0xDC, CHR 0xDD, CHR 0xDE]"

definition lowerCase :: "char list" where
  "lowerCase = ''abcdefghijklmnopqrstuvwxyz'' @
     [CHR 0xE0, CHR 0xE1, CHR 0xE2, CHR 0xE3, CHR 0xE4, CHR 0xE5, CHR 0xE6, CHR 0xE7,
      CHR 0xE8, CHR 0xE9, CHR 0xEA, CHR 0xEB, CHR 0xEC, CHR 0xED, CHR 0xEE, CHR 0xEF,
      CHR 0xF0, CHR 0xF1, CHR 0xF2, CHR 0xF3, CHR 0xF4, CHR 0xF5, CHR 0xF6,
      CHR 0xF8, CHR 0xF9, CHR 0xFA, CHR 0xFB, CHR 0xFC, CHR 0xFD, CHR 0xFE]"

definition toLowerCase_unit :: "char \<Rightarrow> char" where
  "toLowerCase_unit c =
     (case map_of (zip upperCase lowerCase) c of Some l \<Rightarrow> l | None \<Rightarrow> c)"

definition toLowerCase :: "string \<Rightarrow> string" where
  "toLowerCase s = map toLowerCase_unit s"



text \<open>\<^verbatim>\<open>s.includes(t)\<close>: \<open>t\<close> occurs in \<open>s\<close> as a contiguous run of code units.\<close>

definition includes_str :: "string \<Rightarrow> string \<Rightarrow> bool" where
  "includes_str s t = sublist t s"


section \<open>Data model\<close>

text \<open>The fields selected by the \<^verbatim>\<open>GetAllClashes\<close> query.\<close>

record peer =
  peer_id :: string
  name :: string

text \<open>
  \<open>filterClashes\<close> reads \<^verbatim>\<open>clash.title?.\<close> and \<^verbatim>\<open>clash.description?.\<close>: both may be
  \<^verbatim>\<open>null\<close> or \<^verbatim>\<open>undefined\<close>, which is \<open>None\<close> here.
\<close>

record clash =
  clash_id :: string
  title :: "string option"
  description :: "string option"
  location :: string
  address :: string
  date :: string
  pictureUrl :: string
  createdByPeer :: peer
  participants :: "peer list"

text \<open>
  A thrown JavaScript value: an instance of \<^verbatim>\<open>Error\<close> with its message, or any other
  value (kept as its text).
\<close>

datatype thrown = Error string | NonError string

text \<open>What \<^verbatim>\<open>console.error(label, value)\<close> has written, oldest first.\<close>

type_synonym console = "(string \<times> thrown) list"


section \<open>The server action \<open>filterClashes\<close>\<close>

text \<open>
  \<^verbatim>\<open>getClient().query({query: GET_ALL_CLASHES, fetchPolicy: 'no-cache'})\<close> is the
  environment: it rejects with some thrown value (\<open>Inl\<close>) or resolves with
  \<^verbatim>\<open>data.clashes\<close> (\<open>Inr\<close>). The action returns what it wrote to the console and how it
  settles: \<open>Inl\<close> what it throws, \<open>Inr\<close> what it returns. The whole body is inside
  \<^verbatim>\<open>try\<close>; on well-typed records only the query can throw.
\<close>

definition filterClashes ::
  "thrown + clash list \<Rightarrow> string \<Rightarrow> console \<times> (thrown + clash list)" where
  "filterClashes query term =
     (case query of
        Inl error \<Rightarrow>
          ([(''Error filtering clashes:'', error)], Inl (Error ''Failed to filter clashes''))
      | Inr clashes \<Rightarrow>
          if term = [] \<or> trim term = [] then ([], Inr clashes)
          else
            let searchTerm = trim (toLowerCase term);
                filteredClashes =
                  filter (\<lambda>clash.
                    let titleMatch =
                          (case title clash of
                             Some t \<Rightarrow> includes_str (toLowerCase t) searchTerm
                           | None \<Rightarrow> False);
                        descriptionMatch =
                          (case description clash of
                             Some d \<Rightarrow> includes_str (toLowerCase d) searchTerm
                           | None \<Rightarrow> False)
                    in titleMatch \<or> descriptionMatch) clashes
            in ([], Inr filteredClashes))"

text \<open>
  The claims' wording, for comparison with the code: the lowercased field contains
  \<open>lowercase (trim T)\<close> as a substring; an absent field contains nothing.
\<close>

definition field_contains :: "string option \<Rightarrow> string \<Rightarrow> bool" where
  "field_contains field T =
     (case field of
        Some s \<Rightarrow> sublist (toLowerCase (trim T)) (toLowerCase s)
      | None \<Rightarrow> False)"

text \<open>Records used as concrete inputs.\<close>

definition nobody :: peer where
  "nobody = \<lparr>peer_id = ''p1'', name = ''Alice''\<rparr>"

definition mk_clash :: "string \<Rightarrow> string option \<Rightarrow> string option \<Rightarrow> clash" where
  "mk_clash i t d =
     \<lparr>clash_id = i, title = t, description = d, location = ''Vienna'', address = ''Ring 1'',
      date = ''2025-09-12T18:00:00Z'', pictureUrl = ''https://example.org/p.png'',
      createdByPeer = nobody, participants = []\<rparr>"

definition party :: clash where
  "party = mk_clash ''c1'' (Some ''Abba night'') (Some ''Hosted by Alice'')"

definition hike :: clash where
  "hike = mk_clash ''c2'' (Some ''Mountain hike'') None"

definition blank :: clash where
  "blank = mk_clash ''c3'' None None"




section \<open>The route handler \<open>GET /api/clashes\<close>\<close>

text \<open>The query string of \<^verbatim>\<open>request.url\<close>, in order; \<^verbatim>\<open>get\<close> returns the first value of a name.\<close>

record request =
  searchParams :: "(string \<times> string) list"

definition searchParams_get :: "request \<Rightarrow> string \<Rightarrow> string option" where
  "searchParams_get request key = map_of (searchParams request) key"

text \<open>
  The JSON envelope: \<^verbatim>\<open>{success: true, data, count}\<close> is \<open>Success_envelope data count\<close>,
  \<^verbatim>\<open>{success: false, error, message}\<close> is \<open>Failure_envelope error message\<close>.
\<close>

datatype envelope =
  Success_envelope "clash list" nat
| Failure_envelope string string

record response =
  status :: nat
  body :: envelope

text \<open>
  The handler takes the imported action as an argument, so that its \<^verbatim>\<open>catch\<close> is stated for
  every way the action can settle. \<^verbatim>\<open>NextResponse.json\<close> answers 200 unless told otherwise.
  The result is \<open>Inl\<close> for a throw that leaves the handler and \<open>Inr\<close> for a response.
\<close>

definition GET ::
  "(string \<Rightarrow> console \<times> (thrown + clash list)) \<Rightarrow> request \<Rightarrow> console \<times> (thrown + response)"
  where
  "GET action request =
     (let term = (case searchParams_get request ''term'' of Some v \<Rightarrow> v | None \<Rightarrow> [])
      in case action term of
           (log, Inr clashes) \<Rightarrow>
             (log, Inr \<lparr>status = 200, body = Success_envelope clashes (length clashes)\<rparr>)
         | (log, Inl error) \<Rightarrow>
             (log @ [(''API Error:'', error)],
              Inr \<lparr>status = 500,
                   body = Failure_envelope ''Failed to fetch clashes''
                     (case error of Error m \<Rightarrow> m | NonError v \<Rightarrow> ''Unknown error'')\<rparr>))"

text \<open>The route as deployed: the handler over \<open>filterClashes\<close> and the GraphQL backend.\<close>

definition route :: "thrown + clash list \<Rightarrow> request \<Rightarrow> console \<times> (thrown + response)" where
  "route query request = GET (filterClashes query) request"

text \<open>An action that throws a value that is not an \<^verbatim>\<open>Error\<close>, as a concrete input.\<close>

definition throws_boom :: "string \<Rightarrow> console \<times> (thrown + clash list)" where
  "throws_boom term = ([], Inl (NonError ''boom''))"


section \<open>The client hook \<open>useClashes\<close>\<close>

record hook_state =
  clashes :: "clash list"
  loading :: bool
  error :: "string option"

text \<open>The three \<^verbatim>\<open>useState\<close> initial values.\<close>

definition useClashes :: hook_state where
  "useClashes = \<lparr>clashes = [], loading = True, error = None\<rparr>"

text \<open>
  How \<^verbatim>\<open>await fetch(url)\<close> followed by \<^verbatim>\<open>await response.json()\<close> settles: the fetch
  rejects, or it gives a response with a status whose \<^verbatim>\<open>json()\<close> rejects (\<open>Inl\<close>) or
  yields an envelope (\<open>Inr\<close>).
\<close>

datatype fetched = Rejects thrown | Responds nat "thrown + envelope"

text \<open>\<^verbatim>\<open>response.ok\<close>: the status is in the range 200 to 299.\<close>

definition ok :: "nat \<Rightarrow> bool" where
  "ok st = (200 \<le> st \<and> st \<le> 299)"

text \<open>The digits of a number, as the template literal prints \<^verbatim>\<open>response.status\<close>.\<close>

fun decimal :: "nat \<Rightarrow> string" where
  "decimal n =
     (if n < 10 then [''0123456789'' ! n]
      else decimal (n div 10) @ [''0123456789'' ! (n mod 10)])"

declare decimal.simps [simp del]

text \<open>
  \<open>fetchClashes\<close> is an async function. Its synchronous part, up to the first
  \<^verbatim>\<open>await\<close>, sets \<open>loading\<close> and \<open>error\<close> and builds the request; \<open>term\<close> is attached
  only when it is non-empty after trimming.
\<close>

definition fetchClashes_begin :: "string \<Rightarrow> hook_state \<Rightarrow> hook_state \<times> request" where
  "fetchClashes_begin searchTerm s =
     (s\<lparr>loading := True, error := None\<rparr>,
      \<lparr>searchParams = (if trim searchTerm \<noteq> [] then [(''term'', trim searchTerm)] else [])\<rparr>)"

text \<open>
  The rest of the \<^verbatim>\<open>try\<close> block, once the fetch has settled: \<open>Inl\<close> what it throws,
  \<open>Inr\<close> the data it passes to \<open>setClashes\<close>. No state is written between the two
  awaits, so they are one step here.
\<close>

definition fetchClashes_try :: "fetched \<Rightarrow> thrown + clash list" where
  "fetchClashes_try r =
     (case r of
        Rejects e \<Rightarrow> Inl e
      | Responds st json \<Rightarrow>
          if \<not> ok st then Inl (Error (''HTTP error! status: '' @ decimal st))
          else
            (case json of
               Inl e \<Rightarrow> Inl e
             | Inr (Failure_envelope err message) \<Rightarrow>
                 Inl (Error (if message \<noteq> [] then message else ''Failed to fetch clashes''))
             | Inr (Success_envelope data n) \<Rightarrow> Inr data))"

text \<open>The continuation: the \<^verbatim>\<open>try\<close> block's end, \<^verbatim>\<open>catch\<close> and \<^verbatim>\<open>finally\<close>.\<close>

definition fetchClashes_resume :: "fetched \<Rightarrow> hook_state \<Rightarrow> hook_state" where
  "fetchClashes_resume r s =
     (case fetchClashes_try r of
        Inr data \<Rightarrow> s\<lparr>clashes := data\<rparr>\<lparr>loading := False\<rparr>
      | Inl err \<Rightarrow>
          s\<lparr>error := Some (case err of Error m \<Rightarrow> m
                                       | NonError v \<Rightarrow> ''An unknown error occurred''),
            clashes := []\<rparr>\<lparr>loading := False\<rparr>)"

text \<open>
  A browser session: the hook's state and the requests in flight, numbered in the order
  of their issue. \<open>Reload term\<close> is a call of \<open>reload\<close> (its synchronous part);
  \<open>Arrive i\<close> is the moment request \<open>i\<close> settles and its continuation runs. The network
  \<open>net\<close> says how each request settles.
\<close>

record session =
  hook :: hook_state
  inflight :: "(nat \<times> request) list"
  issued :: nat

datatype event = Reload string | Arrive nat

fun step :: "(request \<Rightarrow> fetched) \<Rightarrow> session \<Rightarrow> event \<Rightarrow> session" where
  "step net s (Reload term) =
     (case fetchClashes_begin term (hook s) of
        (h, req) \<Rightarrow>
          s\<lparr>hook := h, inflight := inflight s @ [(issued s, req)], issued := Suc (issued s)\<rparr>)"
| "step net s (Arrive i) =
     (case map_of (inflight s) i of
        None \<Rightarrow> s
      | Some req \<Rightarrow>
          s\<lparr>hook := fetchClashes_resume (net req) (hook s),
            inflight := filter (\<lambda>p. fst p \<noteq> i) (inflight s)\<rparr>)"

definition run :: "(request \<Rightarrow> fetched) \<Rightarrow> session \<Rightarrow> event list \<Rightarrow> session" where
  "run net s events = foldl (step net) s events"

text \<open>
  The request \<open>reload term\<close> sends, and the list the hook shows once the continuation
  of a settled request has run; neither depends on the hook's state at that moment.
\<close>

definition request_of :: "string \<Rightarrow> request" where
  "request_of term = snd (fetchClashes_begin term useClashes)"

definition displayed :: "fetched \<Rightarrow> clash list" where
  "displayed r = clashes (fetchClashes_resume r useClashes)"

text \<open>
  The network in front of the deployed route: the response carries the handler's status
  and envelope. A throw that left the handler would be answered with status 500 and a
  body that is not JSON.
\<close>

definition fetch_route :: "thrown + clash list \<Rightarrow> request \<Rightarrow> fetched" where
  "fetch_route query request =
     (case snd (route query request) of
        Inr res \<Rightarrow> Responds (status res) (Inr (body res))
      | Inl e \<Rightarrow> Responds 500 (Inl (Error ''Unexpected token'')))"

text \<open>
  A network, as a concrete input: the request for the term \<open>a\<close> is answered with
  status 500, every other request by the deployed route.
\<close>

definition flaky :: "request \<Rightarrow> fetched" where
  "flaky request =
     (if searchParams_get request ''term'' = Some ''a''
      then Responds 500 (Inr (Failure_envelope ''Failed to fetch clashes''
             ''Failed to filter clashes''))
      else fetch_route (Inr [party, hike, blank]) request)"



section \<open>The server action \<open>createClash\<close>\<close>

text \<open>
  A check of a zod string schema gives the messages of its issues on a string.
  \<^verbatim>\<open>min\<close> and \<^verbatim>\<open>max\<close> compare the string's length; what \<^verbatim>\<open>url\<close> accepts is the
  library's matter and is the argument \<open>valid\<close>.
\<close>

type_synonym check = "string \<Rightarrow> string list"

definition z_min :: "nat \<Rightarrow> string \<Rightarrow> check" where
  "z_min n msg s = (if length s < n then [msg] else [])"

definition z_max :: "nat \<Rightarrow> string \<Rightarrow> check" where
  "z_max n msg s = (if n < length s then [msg] else [])"

definition z_url :: "(string \<Rightarrow> bool) \<Rightarrow> string \<Rightarrow> check" where
  "z_url valid msg s = (if valid s then [] else [msg])"

text \<open>
  \<^verbatim>\<open>z.string()\<close> with its checks, on what \<^verbatim>\<open>formData.get\<close> returned: \<^verbatim>\<open>null\<close> (\<open>None\<close>)
  is not a string, which is one issue with the library's message \<open>invalid\<close>; on a
  string every check runs. \<open>Inl\<close> the messages, \<open>Inr\<close> the parsed string.
\<close>

definition z_string :: "string \<Rightarrow> check list \<Rightarrow> string option \<Rightarrow> string list + string" where
  "z_string invalid checks v =
     (case v of
        None \<Rightarrow> Inl [invalid]
      | Some s \<Rightarrow>
          (let issues = concat (map (\<lambda>c. c s) checks)
           in if issues = [] then Inr s else Inl issues))"

record CreateClashFormData =
  input_title :: string
  input_description :: string
  input_location :: string
  input_address :: string
  input_date :: string
  input_pictureUrl :: string
  input_participantIds :: "string list"
  input_createdByPeerId :: string

text \<open>
  The string fields of \<open>createClashSchema\<close> in the order of the schema, each with what it
  parses to on the object built from the form; \<open>field\<close> gives the object's values.
\<close>

definition createClashSchema_fields ::
  "(string \<Rightarrow> bool) \<Rightarrow> string \<Rightarrow> (string \<Rightarrow> string option)
   \<Rightarrow> (string \<times> (string list + string)) list" where
  "createClashSchema_fields valid invalid field =
     [(''title'', z_string invalid
         [z_min 1 ''Title is required'', z_max 100 ''Title too long''] (field ''title'')),
      (''description'', z_string invalid
         [z_min 10 ''Description must be at least 10 characters''] (field ''description'')),
      (''location'', z_string invalid [z_min 1 ''Location is required''] (field ''location'')),
      (''address'', z_string invalid [z_min 1 ''Address is required''] (field ''address'')),
      (''date'', z_string invalid [z_min 1 ''Date is required''] (field ''date'')),
      (''pictureUrl'', z_string invalid
         [z_url valid ''Must be a valid URL''] (field ''pictureUrl'')),
      (''createdByPeerId'', z_string invalid
         [z_min 1 ''Valid peer ID required''] (field ''createdByPeerId''))]"

text \<open>
  \<^verbatim>\<open>error.flatten().fieldErrors\<close>: the messages of each field that has an issue, keyed by
  the field's name.
\<close>

definition flatten_fieldErrors ::
  "(string \<times> (string list + string)) list \<Rightarrow> (string \<times> string list) list" where
  "flatten_fieldErrors results =
     concat (map (\<lambda>(key, r). case r of Inl msgs \<Rightarrow> [(key, msgs)] | Inr s \<Rightarrow> []) results)"

text \<open>The string a field parsed to; read only when no field has an issue.\<close>

definition parsed :: "(string \<times> (string list + string)) list \<Rightarrow> string \<Rightarrow> string" where
  "parsed results key = (case map_of results key of Some (Inr s) \<Rightarrow> s | _ \<Rightarrow> [])"

text \<open>
  \<open>createClashSchema.safeParse\<close>: \<open>ids\<close> is the array passed as \<open>participantIds\<close> (an
  array of strings always parses, and \<^verbatim>\<open>default([])\<close> applies to \<^verbatim>\<open>undefined\<close> only).
  \<open>Inl\<close> the field errors, \<open>Inr\<close> the parsed data.
\<close>

definition createClashSchema ::
  "(string \<Rightarrow> bool) \<Rightarrow> string \<Rightarrow> (string \<Rightarrow> string option) \<Rightarrow> string list
   \<Rightarrow> (string \<times> string list) list + CreateClashFormData" where
  "createClashSchema valid invalid field ids =
     (let results = createClashSchema_fields valid invalid field
      in if flatten_fieldErrors results \<noteq> [] then Inl (flatten_fieldErrors results)
         else Inr \<lparr>input_title = parsed results ''title'',
                   input_description = parsed results ''description'',
                   input_location = parsed results ''location'',
                   input_address = parsed results ''address'',
                   input_date = parsed results ''date'',
                   input_pictureUrl = parsed results ''pictureUrl'',
                   input_participantIds = ids,
                   input_createdByPeerId = parsed results ''createdByPeerId''\<rparr>)"

text \<open>\<^verbatim>\<open>s.split(',')\<close>: the pieces between the commas; the empty string gives one empty piece.\<close>

fun split_comma :: "string \<Rightarrow> string list" where
  "split_comma [] = [[]]"
| "split_comma (c # cs) =
     (if c = CHR '','' then [] # split_comma cs
      else (case split_comma cs of w # ws \<Rightarrow> (c # w) # ws | [] \<Rightarrow> [[c]]))"

text \<open>
  The specification's rules for a create input, for comparison with the schema: title of
  1 to 100 characters, description of at least 10, location, address, date and creator
  non-empty, picture URL valid; every one of them a string.
\<close>

definition has :: "(string \<Rightarrow> bool) \<Rightarrow> string option \<Rightarrow> bool" where
  "has P v = (case v of Some s \<Rightarrow> P s | None \<Rightarrow> False)"

definition valid_input :: "(string \<Rightarrow> bool) \<Rightarrow> (string \<Rightarrow> string option) \<Rightarrow> bool" where
  "valid_input valid field =
     (has (\<lambda>s. 1 \<le> length s \<and> length s \<le> 100) (field ''title'') \<and>
      has (\<lambda>s. 10 \<le> length s) (field ''description'') \<and>
      has (\<lambda>s. s \<noteq> []) (field ''location'') \<and>
      has (\<lambda>s. s \<noteq> []) (field ''address'') \<and>
      has (\<lambda>s. s \<noteq> []) (field ''date'') \<and>
      has valid (field ''pictureUrl'') \<and>
      has (\<lambda>s. s \<noteq> []) (field ''createdByPeerId''))"

text \<open>The state a form action returns to \<^verbatim>\<open>useActionState\<close>.\<close>

record action_state =
  errors :: "(string \<times> string list) list"
  message :: string
  form_values :: "(string \<times> string option) list"

definition field_names :: "string list" where
  "field_names = [''title'', ''description'', ''location'', ''address'', ''date'',
     ''pictureUrl'', ''participantIds'', ''createdByPeerId'']"

text \<open>
  \<open>formData\<close> is \<^verbatim>\<open>formData.get\<close>; \<open>mutate\<close> is the GraphQL client: it rejects, or
  resolves with \<^verbatim>\<open>data?.createClash?.id\<close>. The result is the list of the mutation's
  inputs sent to the network and the state returned. \<^verbatim>\<open>redirect\<close> returns \<^verbatim>\<open>never\<close>: it
  signals the framework by throwing, here inside the \<^verbatim>\<open>try\<close> block whose bare
  \<^verbatim>\<open>catch\<close> handles every throw.
\<close>

definition createClash ::
  "(string \<Rightarrow> bool) \<Rightarrow> string \<Rightarrow> (CreateClashFormData \<Rightarrow> thrown + string option)
   \<Rightarrow> (string \<Rightarrow> string option) \<Rightarrow> CreateClashFormData list \<times> action_state" where
  "createClash valid invalid mutate formData =
     (let formValues = map (\<lambda>key. (key, formData key)) field_names;
          validatedFields = createClashSchema valid invalid formData
            (case formData ''participantIds'' of
               Some ids \<Rightarrow>
                 if ids \<noteq> [] then filter (\<lambda>pid. pid \<noteq> []) (map trim (split_comma ids)) else []
             | None \<Rightarrow> []);
          failed = \<lparr>errors = [], message = ''Failed to create clash. Please try again.'',
                    form_values = formValues\<rparr>
      in case validatedFields of
           Inl fieldErrors \<Rightarrow>
             ([], \<lparr>errors = fieldErrors,
                   message = ''Validation failed. Please check your inputs.'',
                   form_values = formValues\<rparr>)
         | Inr data \<Rightarrow>
             ([data],
              (case (case mutate data of
                       Inl e \<Rightarrow> Inl e
                     | Inr (Some cid) \<Rightarrow>
                         if cid \<noteq> [] then Inl (Error ''NEXT_REDIRECT'') else Inr failed
                     | Inr None \<Rightarrow> Inr failed) of
                 Inr returned \<Rightarrow> returned
               | Inl e \<Rightarrow> failed)))"


text \<open>
  Concrete forms: a stand-in for the library's URL check and for its message on a value
  that is not a string, a client whose mutation succeeds with id 42, a form that passes
  validation, the same form with an empty title, and the same form with participants.
\<close>

definition https_only :: "string \<Rightarrow> bool" where
  "https_only s = prefix ''https://'' s"

definition not_a_string :: string where
  "not_a_string = ''Expected string, received null''"

definition created_42 :: "CreateClashFormData \<Rightarrow> thrown + string option" where
  "created_42 input = Inr (Some ''42'')"

definition minimal_form :: "string \<Rightarrow> string option" where
  "minimal_form = map_of
     [(''title'', ''Party''), (''description'', ''Ten chars!''), (''location'', ''Vienna''),
      (''address'', ''Ring 1''), (''date'', ''2025-09-12''),
      (''pictureUrl'', ''https://example.org/p.png''), (''createdByPeerId'', ''p1'')]"

definition untitled_form :: "string \<Rightarrow> string option" where
  "untitled_form = minimal_form(''title'' \<mapsto> [])"

definition invited_form :: "string \<Rightarrow> string option" where
  "invited_form = minimal_form(''participantIds'' \<mapsto> '' p1, ,p2 '')"


section \<open>Facts about strings\<close>

lemma trim_Nil [simp]: "trim [] = []"
  by (simp add: trim_def)

lemma trim_empty_iff: "trim s = [] \<longleftrightarrow> list_all isWhiteSpace s"
proof
  assume "trim s = []"
  then have *: "dropWhile isWhiteSpace (rev (dropWhile isWhiteSpace s)) = []"
    by (simp add: trim_def)
  show "list_all isWhiteSpace s"
  proof (cases "dropWhile isWhiteSpace s")
    case Nil
    then show ?thesis by (simp add: list_all_iff)
  next
    case (Cons c cs)
    then have "\<not> isWhiteSpace c"
      using hd_dropWhile [of isWhiteSpace s] by simp
    moreover from * Cons have "isWhiteSpace c"
      by simp
    ultimately show ?thesis by simp
  qed
next
  assume "list_all isWhiteSpace s"
  then have "dropWhile isWhiteSpace s = []"
    by (simp add: list_all_iff)
  then show "trim s = []"
    unfolding trim_def by (simp only: rev.simps dropWhile.simps)
qed

lemma upperCase_not_whiteSpace: "list_all (\<lambda>c. \<not> isWhiteSpace c) upperCase"
  by (simp add: upperCase_def isWhiteSpace_def whiteSpace_def)

lemma lowerCase_not_whiteSpace: "list_all (\<lambda>c. \<not> isWhiteSpace c) lowerCase"
  by (simp add: lowerCase_def isWhiteSpace_def whiteSpace_def)

lemma toLowerCase_unit_cases:
  "toLowerCase_unit c = c \<or> (c \<in> set upperCase \<and> toLowerCase_unit c \<in> set lowerCase)"
  by (auto simp: toLowerCase_unit_def split: option.splits
           dest!: map_of_SomeD dest: set_zip_leftD set_zip_rightD)

lemma isWhiteSpace_toLowerCase_unit [simp]:
  "isWhiteSpace (toLowerCase_unit c) = isWhiteSpace c"
  using toLowerCase_unit_cases [of c] upperCase_not_whiteSpace lowerCase_not_whiteSpace
  by (auto simp: list_all_iff)

lemma trim_toLowerCase: "trim (toLowerCase s) = toLowerCase (trim s)"
proof -
  have "isWhiteSpace \<circ> toLowerCase_unit = isWhiteSpace"
    by (rule ext) simp
  then show ?thesis
    by (simp add: trim_def toLowerCase_def dropWhile_map rev_map)
qed

lemma list_all_isWhiteSpace_toLowerCase [simp]:
  "list_all isWhiteSpace (toLowerCase s) = list_all isWhiteSpace s"
  by (simp add: toLowerCase_def list_all_iff)











section \<open>Facts about \<open>filterClashes\<close>\<close>

lemma blank_or_trim: "(T = [] \<or> trim T = []) = (trim T = [])"
  by auto

text \<open>On a list the backend returned, the action is the specification's filter.\<close>

lemma filterClashes_Inr:
  "snd (filterClashes (Inr L) T) =
     Inr (if trim T = [] then L
          else filter (\<lambda>C. field_contains (title C) T \<or> field_contains (description C) T) L)"
  by (simp add: filterClashes_def blank_or_trim field_contains_def includes_str_def
        trim_toLowerCase Let_def split: option.splits cong: filter_cong)


lemmas record_defs = party_def hike_def blank_def mk_clash_def nobody_def

lemmas whiteSpace_defs = trim_def isWhiteSpace_def whiteSpace_def


section \<open>The claims about \<open>filterClashes\<close>\<close>

text \<open>
  C1, as stated, fails on the code: for the term of one space, which is not empty, a
  record with neither title nor description is returned, although neither field contains
  anything.
\<close>

theorem filterClashes_blank_term_counterexample:
  "snd (filterClashes (Inr [blank]) '' '') = Inr [blank] \<and>
   \<not> ('' '' = [] \<or> field_contains (title blank) '' '' \<or>
      field_contains (description blank) '' '')"
  by (simp add: filterClashes_def field_contains_def blank_def mk_clash_def whiteSpace_defs)

text \<open>
  C1, amended: for every term \<open>T\<close> and every record \<open>C\<close> of the fetched list, the action
  returns a list, and \<open>C\<close> is in it if and only if \<open>T\<close> is empty or only whitespace
  (\<open>trim T\<close> is empty), or the lowercased title of \<open>C\<close> contains \<open>lowercase (trim T)\<close>
  as a substring, or the lowercased description of \<open>C\<close> does.
\<close>

theorem filterClashes_iff:
  "C \<in> set L \<Longrightarrow>
   \<exists>R. snd (filterClashes (Inr L) T) = Inr R \<and>
       ((C \<in> set R) =
        (trim T = [] \<or> field_contains (title C) T \<or> field_contains (description C) T))"
  by (simp add: filterClashes_Inr)

theorem filterClashes_iff_witness:
  "party \<in> set [party, hike, blank] \<and>
   (\<exists>R. snd (filterClashes (Inr [party, hike, blank]) '' ALICE '') = Inr R \<and>
       ((party \<in> set R) =
        (trim '' ALICE '' = [] \<or> field_contains (title party) '' ALICE '' \<or>
         field_contains (description party) '' ALICE '')))"
  using filterClashes_iff [of party "[party, hike, blank]" "'' ALICE ''"] by simp

text \<open>
  C3: for every term that is empty or consists of whitespace only, the action returns the
  fetched list itself: the same records in the same order.
\<close>

theorem filterClashes_no_term:
  "list_all isWhiteSpace T \<Longrightarrow> snd (filterClashes (Inr L) T) = Inr L"
  by (simp add: filterClashes_Inr trim_empty_iff)

theorem filterClashes_no_term_witness:
  "list_all isWhiteSpace [] \<and>
   snd (filterClashes (Inr [party, hike, blank]) []) = Inr [party, hike, blank] \<and>
   list_all isWhiteSpace [CHR '' '', CHR 0x09] \<and>
   snd (filterClashes (Inr [party, hike, blank]) [CHR '' '', CHR 0x09]) =
     Inr [party, hike, blank]"
  using filterClashes_no_term [of "[]" "[party, hike, blank]"]
    filterClashes_no_term [of "[CHR '' '', CHR 0x09]" "[party, hike, blank]"]
  by (simp add: isWhiteSpace_def whiteSpace_def)

text \<open>
  C6, as stated, fails on the code: the term of one space is not empty, and a record with
  neither title nor description is returned for it, although its other field does not
  match.
\<close>

theorem filterClashes_absent_field_counterexample:
  "'' '' \<noteq> [] \<and> title blank = None \<and> description blank = None \<and>
   snd (filterClashes (Inr [blank]) '' '') = Inr [blank] \<and>
   \<not> field_contains (description blank) '' '' \<and> \<not> field_contains (title blank) '' ''"
  by (simp add: filterClashes_def field_contains_def blank_def mk_clash_def whiteSpace_defs)

text \<open>
  C6, amended: for every term and every fetched list, also with records whose title or
  description is absent, the action returns a list and does not throw; and for every term
  that is not empty after trimming, a record without title is in the result exactly when
  its description matches, and a record without description exactly when its title
  matches (so a record without both is left out).
\<close>

theorem filterClashes_absent_field:
  "\<exists>R. snd (filterClashes (Inr L) T) = Inr R \<and>
     (trim T \<noteq> [] \<longrightarrow>
        (\<forall>C\<in>set L.
           (title C = None \<longrightarrow> (C \<in> set R) = field_contains (description C) T) \<and>
           (description C = None \<longrightarrow> (C \<in> set R) = field_contains (title C) T)))"
  by (auto simp: filterClashes_Inr field_contains_def)

lemma hike_MOUNT: "snd (filterClashes (Inr [party, hike, blank]) ''MOUNT'') = Inr [hike]"
  by code_simp

theorem filterClashes_absent_field_witness:
  "trim ''MOUNT'' \<noteq> [] \<and> hike \<in> set [party, hike, blank] \<and>
   blank \<in> set [party, hike, blank] \<and>
   description hike = None \<and> title blank = None \<and> description blank = None \<and>
   snd (filterClashes (Inr [party, hike, blank]) ''MOUNT'') = Inr [hike] \<and>
   field_contains (title hike) ''MOUNT'' \<and> \<not> field_contains (title blank) ''MOUNT'' \<and>
   \<not> field_contains (description blank) ''MOUNT''"
  using filterClashes_absent_field [of "[party, hike, blank]" "''MOUNT''"] hike_MOUNT
  by (auto simp: field_contains_def record_defs whiteSpace_defs)

text \<open>
  C7: whatever the backend query throws, the action throws the one error
  \<open>Failed to filter clashes\<close>; two runs that fail with different causes throw the same
  error, and the cause goes to the console only.
\<close>

theorem filterClashes_generic_failure:
  "snd (filterClashes (Inl e) T) = Inl (Error ''Failed to filter clashes'') \<and>
   snd (filterClashes (Inl e) T) = snd (filterClashes (Inl e') T') \<and>
   fst (filterClashes (Inl e) T) = [(''Error filtering clashes:'', e)]"
  by (simp add: filterClashes_def)

theorem filterClashes_generic_failure_witness:
  "snd (filterClashes (Inl (Error ''connect ECONNREFUSED 127.0.0.1:3000'')) ''alice'') =
     Inl (Error ''Failed to filter clashes'') \<and>
   snd (filterClashes (Inl (Error ''connect ECONNREFUSED 127.0.0.1:3000'')) ''alice'') =
     snd (filterClashes (Inl (NonError ''Response not successful: 502'')) []) \<and>
   fst (filterClashes (Inl (Error ''connect ECONNREFUSED 127.0.0.1:3000'')) ''alice'') =
     [(''Error filtering clashes:'', Error ''connect ECONNREFUSED 127.0.0.1:3000'')]"
  by (rule filterClashes_generic_failure)





text \<open>
  C10: for every term, the list the action returns is a subsequence of the fetched list:
  records are dropped, never reordered, repeated or added.
\<close>

theorem filterClashes_subseq:
  "\<exists>R. snd (filterClashes (Inr L) T) = Inr R \<and> subseq R L"
  by (simp add: filterClashes_Inr)

theorem filterClashes_subseq_witness:
  "snd (filterClashes (Inr [party, hike, blank]) ''i'') = Inr [party, hike] \<and>
   subseq [party, hike] [party, hike, blank]"
proof -
  have res: "snd (filterClashes (Inr [party, hike, blank]) ''i'') = Inr [party, hike]"
    by code_simp
  with filterClashes_subseq [of "[party, hike, blank]" "''i''"] show ?thesis
    by simp
qed


section \<open>The claim about the route handler\<close>

text \<open>
  C4: for every request and every way the action settles, the handler responds and does
  not throw; when the action returns the list \<open>L\<close>, the response is 200 with the
  envelope of success, \<open>L\<close> and the length of \<open>L\<close>; when the action throws, the
  response is 500 with the envelope of failure, the error \<open>Failed to fetch clashes\<close> and
  as message the thrown error's message, or \<open>Unknown error\<close> for a thrown value that is
  not an error.
\<close>

theorem GET_envelope:
  "(\<exists>res. snd (GET action request) = Inr res) \<and>
   (snd (action (case searchParams_get request ''term'' of Some v \<Rightarrow> v | None \<Rightarrow> [])) = Inr L
      \<longrightarrow> snd (GET action request) =
        Inr \<lparr>status = 200, body = Success_envelope L (length L)\<rparr>) \<and>
   (snd (action (case searchParams_get request ''term'' of Some v \<Rightarrow> v | None \<Rightarrow> [])) = Inl e
      \<longrightarrow> snd (GET action request) =
        Inr \<lparr>status = 500,
             body = Failure_envelope ''Failed to fetch clashes''
               (case e of Error m \<Rightarrow> m | NonError v \<Rightarrow> ''Unknown error'')\<rparr>)"
  by (auto simp: GET_def split: prod.splits sum.splits)

theorem GET_envelope_witness:
  "snd (filterClashes (Inr [party, hike, blank])
      (case searchParams_get \<lparr>searchParams = [(''term'', ''Alice'')]\<rparr> ''term'' of
         Some v \<Rightarrow> v | None \<Rightarrow> [])) = Inr [party] \<and>
   snd (GET (filterClashes (Inr [party, hike, blank]))
      \<lparr>searchParams = [(''term'', ''Alice'')]\<rparr>) =
     Inr \<lparr>status = 200, body = Success_envelope [party] (length [party])\<rparr> \<and>
   snd (filterClashes (Inl (Error ''socket hang up''))
      (case searchParams_get \<lparr>searchParams = []\<rparr> ''term'' of
         Some v \<Rightarrow> v | None \<Rightarrow> [])) = Inl (Error ''Failed to filter clashes'') \<and>
   snd (GET (filterClashes (Inl (Error ''socket hang up''))) \<lparr>searchParams = []\<rparr>) =
     Inr \<lparr>status = 500,
          body = Failure_envelope ''Failed to fetch clashes'' ''Failed to filter clashes''\<rparr> \<and>
   snd (GET throws_boom \<lparr>searchParams = []\<rparr>) =
     Inr \<lparr>status = 500,
          body = Failure_envelope ''Failed to fetch clashes'' ''Unknown error''\<rparr>"
proof -
  let ?q = "\<lparr>searchParams = [(''term'', ''Alice'')]\<rparr>"
  let ?n = "\<lparr>searchParams = []\<rparr>"
  have a: "snd (filterClashes (Inr [party, hike, blank])
      (case searchParams_get ?q ''term'' of Some v \<Rightarrow> v | None \<Rightarrow> [])) = Inr [party]"
    by code_simp
  have b: "snd (filterClashes (Inl (Error ''socket hang up''))
      (case searchParams_get ?n ''term'' of Some v \<Rightarrow> v | None \<Rightarrow> [])) =
      Inl (Error ''Failed to filter clashes'')"
    by (simp add: filterClashes_def)
  have c: "snd (throws_boom
      (case searchParams_get ?n ''term'' of Some v \<Rightarrow> v | None \<Rightarrow> [])) =
      Inl (NonError ''boom'')"
    by (simp add: throws_boom_def)
  from a GET_envelope [of "filterClashes (Inr [party, hike, blank])" ?q "[party]"]
  have a': "snd (GET (filterClashes (Inr [party, hike, blank])) ?q) =
      Inr \<lparr>status = 200, body = Success_envelope [party] (length [party])\<rparr>"
    by blast
  from b GET_envelope [of "filterClashes (Inl (Error ''socket hang up''))" ?n _
      "Error ''Failed to filter clashes''"]
  have b': "snd (GET (filterClashes (Inl (Error ''socket hang up''))) ?n) =
      Inr \<lparr>status = 500, body = Failure_envelope ''Failed to fetch clashes''
        (case Error ''Failed to filter clashes'' of Error m \<Rightarrow> m
         | NonError v \<Rightarrow> ''Unknown error'')\<rparr>"
    by blast
  from c GET_envelope [of throws_boom ?n _ "NonError ''boom''"]
  have c': "snd (GET throws_boom ?n) =
      Inr \<lparr>status = 500, body = Failure_envelope ''Failed to fetch clashes''
        (case NonError ''boom'' of Error m \<Rightarrow> m | NonError v \<Rightarrow> ''Unknown error'')\<rparr>"
    by blast
  from a a' b b' c' show ?thesis
    by (simp only: thrown.case simp_thms)
qed


section \<open>The claims about the hook\<close>

text \<open>
  C5, as stated, fails on the code: \<open>reload a\<close> and then \<open>reload ab\<close> are issued, the
  request for \<open>a\<close> fails and then the request for \<open>ab\<close> succeeds. The second
  invocation ends with its data in \<open>clashes\<close> and the first one's message in \<open>error\<close>,
  which is not null.
\<close>

theorem error_after_success_counterexample:
  "fetchClashes_try (flaky (snd (fetchClashes_begin ''ab'' useClashes))) = Inr [party] \<and>
   hook (run flaky \<lparr>hook = useClashes, inflight = [], issued = 0\<rparr>
      [Reload ''a'', Reload ''ab'', Arrive 0, Arrive 1]) =
     \<lparr>clashes = [party], loading = False, error = Some ''HTTP error! status: 500''\<rparr>"
  by code_simp

text \<open>
  C5, amended: the synchronous part of \<open>fetchClashes\<close> sets \<open>loading\<close> to true and
  \<open>error\<close> to null. When the rest of the \<^verbatim>\<open>try\<close> block succeeds with data, the
  continuation replaces \<open>clashes\<close> by the data and leaves \<open>error\<close> as it finds it, which
  is null when the continuation runs on the state the synchronous part left; when it
  throws, \<open>error\<close> becomes the thrown error's message or the fallback, and \<open>clashes\<close>
  the empty list; in each case \<open>loading\<close> ends false.
\<close>


theorem fetchClashes_states:
  "fst (fetchClashes_begin term s) = s\<lparr>loading := True, error := None\<rparr> \<and>
   (fetchClashes_try r = Inr data \<longrightarrow>
      fetchClashes_resume r s' = s'\<lparr>clashes := data, loading := False\<rparr> \<and>
      fetchClashes_resume r (fst (fetchClashes_begin term s)) =
        \<lparr>clashes = data, loading = False, error = None\<rparr>) \<and>
   (fetchClashes_try r = Inl err \<longrightarrow>
      fetchClashes_resume r s' =
        \<lparr>clashes = [], loading = False,
         error = Some (case err of Error m \<Rightarrow> m
                       | NonError v \<Rightarrow> ''An unknown error occurred'')\<rparr>) \<and>
   loading (fetchClashes_resume r s') = False"
  by (auto simp: fetchClashes_begin_def fetchClashes_resume_def split: sum.splits)

theorem fetchClashes_states_witness:
  "fetchClashes_try (Responds 200 (Inr (Success_envelope [party] 1))) = Inr [party] \<and>
   fetchClashes_resume (Responds 200 (Inr (Success_envelope [party] 1)))
     (fst (fetchClashes_begin ''abba'' useClashes)) =
     \<lparr>clashes = [party], loading = False, error = None\<rparr> \<and>
   fetchClashes_try (Responds 500 (Inr (Failure_envelope ''Failed to fetch clashes''
     ''Failed to filter clashes''))) = Inl (Error ''HTTP error! status: 500'') \<and>
   fetchClashes_resume (Responds 500 (Inr (Failure_envelope ''Failed to fetch clashes''
     ''Failed to filter clashes''))) \<lparr>clashes = [party], loading = True, error = None\<rparr> =
     \<lparr>clashes = [], loading = False, error = Some ''HTTP error! status: 500''\<rparr>"
proof -
  let ?ok = "Responds 200 (Inr (Success_envelope [party] 1))"
  let ?ko = "Responds 500 (Inr (Failure_envelope ''Failed to fetch clashes''
     ''Failed to filter clashes''))"
  have a: "fetchClashes_try ?ok = Inr [party]"
    by (simp add: fetchClashes_try_def ok_def)
  have b: "fetchClashes_try ?ko = Inl (Error ''HTTP error! status: 500'')"
    by code_simp
  from a fetchClashes_states [of "''abba''" useClashes ?ok "[party]"]
  have a': "fetchClashes_resume ?ok (fst (fetchClashes_begin ''abba'' useClashes)) =
     \<lparr>clashes = [party], loading = False, error = None\<rparr>"
    by blast
  from b fetchClashes_states [of _ _ ?ko _ "\<lparr>clashes = [party], loading = True, error = None\<rparr>"
      "Error ''HTTP error! status: 500''"]
  have b': "fetchClashes_resume ?ko \<lparr>clashes = [party], loading = True, error = None\<rparr> =
     \<lparr>clashes = [], loading = False,
      error = Some (case Error ''HTTP error! status: 500'' of Error m \<Rightarrow> m
                       | NonError v \<Rightarrow> ''An unknown error occurred'')\<rparr>"
    by blast
  from a a' b b' show ?thesis
    by (simp only: thrown.case simp_thms)
qed

text \<open>
  C2, as stated, fails on the code: after the initial load, \<open>reload a\<close> and then
  \<open>reload ab\<close> are issued; the response for \<open>ab\<close> arrives first and the response for
  \<open>a\<close> last. The hook then shows the result for \<open>a\<close>, not the result for \<open>ab\<close>.
\<close>

theorem stale_response_counterexample:
  "clashes (hook (run (fetch_route (Inr [party, hike, blank]))
      \<lparr>hook = useClashes, inflight = [], issued = 0\<rparr>
      [Reload [], Arrive 0, Reload ''a'', Reload ''ab'', Arrive 2, Arrive 1])) = [party, hike] \<and>
   displayed (fetch_route (Inr [party, hike, blank]) (request_of ''ab'')) = [party] \<and>
   [party, hike] \<noteq> [party]"
  by code_simp

lemma request_of_eq: "snd (fetchClashes_begin term h) = request_of term"
  by (simp add: request_of_def fetchClashes_begin_def)

lemma displayed_eq: "clashes (fetchClashes_resume r h) = displayed r"
  by (simp add: displayed_def fetchClashes_resume_def split: sum.splits)

lemma two_reloads:
  "run net \<lparr>hook = h, inflight = [], issued = n\<rparr> [Reload t1, Reload t2] =
     \<lparr>hook = h\<lparr>loading := True, error := None\<rparr>,
      inflight = [(n, request_of t1), (Suc n, request_of t2)], issued = Suc (Suc n)\<rparr>"
  by (simp add: run_def fetchClashes_begin_def request_of_def)

text \<open>
  C2, amended: when \<open>reload t1\<close> and then \<open>reload t2\<close> are issued with no other
  request in flight and before either resolves, the clashes shown at the end are those of
  the response that arrives last: the result for \<open>t2\<close> when the responses arrive in the
  order of issue, the result for \<open>t1\<close> when the response for \<open>t1\<close> arrives after
  the one for \<open>t2\<close>.
\<close>

theorem last_arrival_wins:
  "clashes (hook (run net \<lparr>hook = h, inflight = [], issued = n\<rparr>
      [Reload t1, Reload t2, Arrive n, Arrive (Suc n)])) = displayed (net (request_of t2)) \<and>
   clashes (hook (run net \<lparr>hook = h, inflight = [], issued = n\<rparr>
      [Reload t1, Reload t2, Arrive (Suc n), Arrive n])) = displayed (net (request_of t1))"
proof -
  let ?s = "\<lparr>hook = h, inflight = [], issued = n\<rparr>"
  have split: "\<And>es. run net ?s (Reload t1 # Reload t2 # es) =
      run net (run net ?s [Reload t1, Reload t2]) es"
    by (simp add: run_def)
  show ?thesis
    unfolding split two_reloads
    by (simp add: run_def displayed_eq)
qed

theorem last_arrival_wins_witness:
  "clashes (hook (run (fetch_route (Inr [party, hike, blank]))
      \<lparr>hook = useClashes, inflight = [], issued = 0\<rparr>
      [Reload ''a'', Reload ''ab'', Arrive 0, Arrive (Suc 0)])) = [party] \<and>
   clashes (hook (run (fetch_route (Inr [party, hike, blank]))
      \<lparr>hook = useClashes, inflight = [], issued = 0\<rparr>
      [Reload ''a'', Reload ''ab'', Arrive (Suc 0), Arrive 0])) = [party, hike]"
proof -
  have a: "displayed (fetch_route (Inr [party, hike, blank]) (request_of ''a'')) = [party, hike]"
    by code_simp
  have ab: "displayed (fetch_route (Inr [party, hike, blank]) (request_of ''ab'')) = [party]"
    by code_simp
  show ?thesis
    unfolding a [symmetric] ab [symmetric]
    by (rule last_arrival_wins)
qed


section \<open>Facts about \<open>createClash\<close>\<close>

lemma z_string_isr:
  "(\<exists>s. z_string invalid checks v = Inr s) = has (\<lambda>s. concat (map (\<lambda>c. c s) checks) = []) v"
  by (auto simp: z_string_def has_def Let_def split: option.splits)

lemma flatten_fieldErrors_simps [simp]:
  "flatten_fieldErrors [] = []"
  "flatten_fieldErrors ((k, Inl msgs) # results) = (k, msgs) # flatten_fieldErrors results"
  "flatten_fieldErrors ((k, Inr s) # results) = flatten_fieldErrors results"
  by (simp_all add: flatten_fieldErrors_def)

lemma flatten_fieldErrors_Nil:
  "(flatten_fieldErrors results = []) = list_all (\<lambda>p. \<exists>s. snd p = Inr s) results"
proof (induction results)
  case Nil
  show ?case by simp
next
  case (Cons p results)
  obtain k r where p: "p = (k, r)" by (cases p)
  from Cons show ?case by (cases r) (simp_all add: p)
qed

lemma flatten_fieldErrors_keys:
  "key \<in> fst ` set (flatten_fieldErrors results) \<Longrightarrow> key \<in> fst ` set results"
proof (induction results)
  case Nil
  then show ?case by simp
next
  case (Cons p results)
  obtain k r where p: "p = (k, r)" by (cases p)
  from Cons show ?case by (cases r) (auto simp: p)
qed

lemma map_of_flatten_fieldErrors:
  "distinct (map fst results) \<Longrightarrow>
   map_of (flatten_fieldErrors results) key =
     (case map_of results key of Some (Inl msgs) \<Rightarrow> Some msgs | _ \<Rightarrow> None)"
proof (induction results)
  case Nil
  then show ?case by simp
next
  case (Cons p results)
  obtain k r where p: "p = (k, r)" by (cases p)
  from Cons.prems p have fresh: "k \<notin> fst ` set results" by simp
  then have none': "map_of results k = None"
    by (simp add: map_of_eq_None_iff)
  from fresh flatten_fieldErrors_keys [of k results]
  have "k \<notin> fst ` set (flatten_fieldErrors results)" by blast
  then have none: "map_of (flatten_fieldErrors results) k = None"
    by (simp add: map_of_eq_None_iff)
  from Cons show ?case
    by (cases r) (simp_all add: p none none')
qed

lemma valid_input_iff:
  "valid_input valid field =
     (flatten_fieldErrors (createClashSchema_fields valid invalid field) = [])"
  unfolding flatten_fieldErrors_Nil createClashSchema_fields_def valid_input_def
  by (simp add: z_string_isr z_min_def z_max_def z_url_def Suc_le_eq not_less
        cong: conj_cong)

lemma errors_createClash:
  "errors (snd (createClash valid invalid mutate formData)) =
     flatten_fieldErrors (createClashSchema_fields valid invalid formData)"
  by (simp add: createClash_def createClashSchema_def Let_def split: sum.splits option.splits)


section \<open>The claim about \<open>createClash\<close>\<close>

text \<open>
  C8: when the form does not pass validation, no mutation is sent and the field errors
  returned are not empty; an empty title, a description of fewer than 10 characters and a
  picture URL that is not valid each give the error list of their field. When the form
  passes validation, one mutation is sent, whose \<open>participantIds\<close> are the pieces of
  the comma-separated string, trimmed, without the empty ones; they are the empty list
  when the field is omitted or empty.
\<close>

theorem createClash_validation:
  "(\<not> valid_input valid formData \<longrightarrow>
      fst (createClash valid invalid mutate formData) = [] \<and>
      errors (snd (createClash valid invalid mutate formData)) \<noteq> []) \<and>
   (formData ''title'' = Some [] \<longrightarrow>
      map_of (errors (snd (createClash valid invalid mutate formData))) ''title'' =
        Some [''Title is required'']) \<and>
   (has (\<lambda>s. length s < 10) (formData ''description'') \<longrightarrow>
      map_of (errors (snd (createClash valid invalid mutate formData))) ''description'' =
        Some [''Description must be at least 10 characters'']) \<and>
   (has (\<lambda>s. \<not> valid s) (formData ''pictureUrl'') \<longrightarrow>
      map_of (errors (snd (createClash valid invalid mutate formData))) ''pictureUrl'' =
        Some [''Must be a valid URL'']) \<and>
   (valid_input valid formData \<longrightarrow>
      (\<exists>data. fst (createClash valid invalid mutate formData) = [data] \<and>
         input_participantIds data =
           (case formData ''participantIds'' of
              None \<Rightarrow> []
            | Some ids \<Rightarrow> filter (\<lambda>pid. pid \<noteq> []) (map trim (split_comma ids))) \<and>
         (formData ''participantIds'' = None \<or> formData ''participantIds'' = Some [] \<longrightarrow>
            input_participantIds data = [])))"
proof -
  let ?cc = "createClash valid invalid mutate formData"
  let ?fs = "createClashSchema_fields valid invalid formData"
  have keys: "distinct (map fst ?fs)"
    by (simp add: createClashSchema_fields_def)
  have errs: "errors (snd ?cc) = flatten_fieldErrors ?fs"
    by (rule errors_createClash)
  have A: "\<not> valid_input valid formData \<Longrightarrow> fst ?cc = [] \<and> errors (snd ?cc) \<noteq> []"
    by (simp add: errs valid_input_iff [of valid formData invalid]
          createClash_def createClashSchema_def Let_def)
  have B: "formData ''title'' = Some [] \<Longrightarrow>
      map_of (errors (snd ?cc)) ''title'' = Some [''Title is required'']"
    by (simp add: errs map_of_flatten_fieldErrors [OF keys])
       (simp add: createClashSchema_fields_def z_string_def z_min_def z_max_def)
  have C: "has (\<lambda>s. length s < 10) (formData ''description'') \<Longrightarrow>
      map_of (errors (snd ?cc)) ''description'' =
        Some [''Description must be at least 10 characters'']"
    by (simp add: errs map_of_flatten_fieldErrors [OF keys])
       (auto simp: createClashSchema_fields_def z_string_def z_min_def has_def
             split: option.splits)
  have D: "has (\<lambda>s. \<not> valid s) (formData ''pictureUrl'') \<Longrightarrow>
      map_of (errors (snd ?cc)) ''pictureUrl'' = Some [''Must be a valid URL'']"
    by (simp add: errs map_of_flatten_fieldErrors [OF keys])
       (auto simp: createClashSchema_fields_def z_string_def z_url_def has_def
             split: option.splits)
  have E: "valid_input valid formData \<Longrightarrow>
      (\<exists>data. fst ?cc = [data] \<and>
         input_participantIds data =
           (case formData ''participantIds'' of
              None \<Rightarrow> []
            | Some ids \<Rightarrow> filter (\<lambda>pid. pid \<noteq> []) (map trim (split_comma ids))) \<and>
         (formData ''participantIds'' = None \<or> formData ''participantIds'' = Some [] \<longrightarrow>
            input_participantIds data = []))"
    by (auto simp: valid_input_iff [of valid formData invalid]
          createClash_def createClashSchema_def Let_def split: option.splits)
  from A B C D E show ?thesis by blast
qed

theorem createClash_validation_witness:
  "\<not> valid_input https_only untitled_form \<and> untitled_form ''title'' = Some [] \<and>
   fst (createClash https_only not_a_string created_42 untitled_form) = [] \<and>
   map_of (errors (snd (createClash https_only not_a_string created_42 untitled_form)))
     ''title'' = Some [''Title is required''] \<and>
   valid_input https_only minimal_form \<and> minimal_form ''participantIds'' = None \<and>
   (\<exists>data. fst (createClash https_only not_a_string created_42 minimal_form) = [data] \<and>
      input_participantIds data = []) \<and>
   valid_input https_only invited_form \<and>
   (\<exists>data. fst (createClash https_only not_a_string created_42 invited_form) = [data] \<and>
      input_participantIds data = [''p1'', ''p2''])"
proof -
  have u1: "\<not> valid_input https_only untitled_form"
    by code_simp
  have u2: "untitled_form ''title'' = Some []"
    by code_simp
  have m1: "valid_input https_only minimal_form"
    by code_simp
  have m2: "minimal_form ''participantIds'' = None"
    by code_simp
  have i1: "valid_input https_only invited_form"
    by code_simp
  have i2: "(case invited_form ''participantIds'' of
        None \<Rightarrow> []
      | Some ids \<Rightarrow> filter (\<lambda>pid. pid \<noteq> []) (map trim (split_comma ids))) = [''p1'', ''p2'']"
    by code_simp
  note U = createClash_validation [of https_only untitled_form not_a_string created_42]
  note M = createClash_validation [of https_only minimal_form not_a_string created_42]
  note I = createClash_validation [of https_only invited_form not_a_string created_42]
  from U u1 have a: "fst (createClash https_only not_a_string created_42 untitled_form) = []"
    by blast
  from U u2 have b: "map_of (errors (snd (createClash https_only not_a_string created_42
      untitled_form))) ''title'' = Some [''Title is required'']"
    by blast
  from M m1 m2 have c: "\<exists>data. fst (createClash https_only not_a_string created_42
      minimal_form) = [data] \<and> input_participantIds data = []"
    by blast
  from I i1 have "\<exists>data. fst (createClash https_only not_a_string created_42
      invited_form) = [data] \<and> input_participantIds data =
      (case invited_form ''participantIds'' of
        None \<Rightarrow> []
      | Some ids \<Rightarrow> filter (\<lambda>pid. pid \<noteq> []) (map trim (split_comma ids)))"
    by blast
  then have d: "\<exists>data. fst (createClash https_only not_a_string created_42
      invited_form) = [data] \<and> input_participantIds data = [''p1'', ''p2'']"
    unfolding i2 .
  from u1 u2 a b m1 m2 c i1 d show ?thesis
    by (intro conjI)
qed

end
